theory Spec2Isabelle
  imports Complex_Main
begin

unbundle bit_operations_syntax

section \<open>GA4GH read alignments to SAM: a model of converters.py\<close>

text \<open>
  The theory embeds the SAM half of \<^verbatim>\<open>ga4gh/converters/converters.py\<close>:
  the classes \<^verbatim>\<open>SamCigar\<close>, \<^verbatim>\<open>SamFlags\<close>, \<^verbatim>\<open>SamConverter\<close> (header and target
  ids) and \<^verbatim>\<open>SamLine\<close>. Python integers are \<open>int\<close>, Python's \<^verbatim>\<open>None\<close> is
  \<open>None\<close>, an exception is the \<open>Inl\<close> side of a sum, and the
  \<^verbatim>\<open>collections.defaultdict(int)\<close> of target ids is a map that is passed through and
  returned, because looking a missing key up stores it.
\<close>

subsection \<open>Python values and exceptions\<close>

datatype py_error = IndexError | AttributeError

text \<open>
  Indexing a Python list: an index below zero counts from the end, and an index outside
  \<open>-len .. len - 1\<close> raises \<^verbatim>\<open>IndexError\<close>.
\<close>

definition py_getitem :: "'a list \<Rightarrow> int \<Rightarrow> py_error + 'a" where
  "py_getitem xs i =
     (if 0 \<le> i \<and> i < int (length xs) then Inr (xs ! nat i)
      else if i < 0 \<and> - int (length xs) \<le> i then Inr (xs ! nat (int (length xs) + i))
      else Inl IndexError)"

text \<open>
  Text is a byte string. On ASCII text \<^verbatim>\<open>encode('utf8')\<close> and \<^verbatim>\<open>str\<close> return the
  same bytes, which is how both are modelled.
\<close>

definition encode :: "string \<Rightarrow> string" where
  "encode s = s"

definition py_str :: "string \<Rightarrow> string" where
  "py_str s = s"

subsection \<open>The protocol's messages\<close>

text \<open>
  The messages of \<^verbatim>\<open>ga4gh.schemas.protocol\<close> that the converter reads. The operation
  enumeration has the nine kinds that \<^verbatim>\<open>SamCigar.cigarStrings\<close> lists and the
  enumeration's zero value.
\<close>

datatype Operation =
    OPERATION_UNSPECIFIED
  | ALIGNMENT_MATCH
  | INSERT
  | DELETE
  | SKIP
  | CLIP_SOFT
  | CLIP_HARD
  | PAD
  | SEQUENCE_MATCH
  | SEQUENCE_MISMATCH

datatype Strand = STRAND_UNSPECIFIED | NEG_STRAND | POS_STRAND

record Position =
  reference_name :: string
  position :: int
  strand :: Strand

record CigarUnit =
  operation :: Operation
  operation_length :: int

text \<open>
  The field \<^verbatim>\<open>position\<close> of a linear alignment is \<open>alignment_position\<close> here, since
  \<open>position\<close> is the coordinate of a \<open>Position\<close>.
\<close>

record LinearAlignment =
  alignment_position :: Position
  mapping_quality :: int
  cigar :: "CigarUnit list"

text \<open>
  Modelled from the spec: the attribute values of the protocol and
  \<^verbatim>\<open>protocol.getValueFromValue\<close>, which are not in the source. Each value is an
  integer, a float or a string, and \<^verbatim>\<open>getValueFromValue\<close> returns the Python value
  the message holds. The converter never computes with a float, it only passes it on.
\<close>

datatype AttributeValue = Int64Value int | DoubleValue real | StringValue string

datatype py_value = PyInt int | PyFloat real | PyStr string

fun getValueFromValue :: "AttributeValue \<Rightarrow> py_value" where
  "getValueFromValue (Int64Value i) = PyInt i"
| "getValueFromValue (DoubleValue x) = PyFloat x"
| "getValueFromValue (StringValue s) = PyStr s"

text \<open>
  A read. The fields \<open>alignment\<close> and \<open>next_mate_position\<close> are the ones the converter
  compares with \<^verbatim>\<open>None\<close>. A read of the protocol never holds \<^verbatim>\<open>None\<close> there: a
  sub-message that was not set reads as the message with every field at its default, so
  such a read has \<open>Some\<close> message in both fields. \<open>attributes\<close> lists the pairs of
  \<^verbatim>\<open>read.attributes.attr.items()\<close> in the order the loop sees them.
\<close>

record ReadAlignment =
  fragment_name :: string
  aligned_sequence :: string
  aligned_quality :: "int list"
  alignment :: "LinearAlignment option"
  next_mate_position :: "Position option"
  number_reads :: int
  improper_placement :: bool
  read_number :: int
  secondary_alignment :: bool
  failed_vendor_quality_checks :: bool
  duplicate_fragment :: bool
  supplementary_alignment :: bool
  fragment_length :: int
  attributes :: "(string \<times> AttributeValue list) list"

text \<open>
  Modelled from the spec: \<^verbatim>\<open>ByteSize()\<close> of a protocol message, which is not in the
  source. The test \<^verbatim>\<open>ByteSize() == 0\<close> holds of a position exactly when all its
  fields are at their zero or default value.
\<close>

definition ByteSize_is_0 :: "Position \<Rightarrow> bool" where
  "ByteSize_is_0 p \<longleftrightarrow>
     reference_name p = [] \<and> position p = 0 \<and> strand p = STRAND_UNSPECIFIED"

subsection \<open>SamCigar\<close>

definition cigarStrings :: "Operation list" where
  "cigarStrings =
     [ALIGNMENT_MATCH, INSERT, DELETE, SKIP, CLIP_SOFT, CLIP_HARD, PAD,
      SEQUENCE_MATCH, SEQUENCE_MISMATCH]"

text \<open>
  The loop of \<^verbatim>\<open>ga2int\<close> over \<^verbatim>\<open>enumerate(cls.cigarStrings)\<close>: the first index whose
  entry equals the value, and \<^verbatim>\<open>None\<close> when the loop ends without a \<^verbatim>\<open>return\<close>.
\<close>

fun ga2int_loop :: "int \<Rightarrow> Operation list \<Rightarrow> Operation \<Rightarrow> int option" where
  "ga2int_loop i [] v = None"
| "ga2int_loop i (cigarString # rest) v =
     (if v = cigarString then Some i else ga2int_loop (i + 1) rest v)"

definition ga2int :: "Operation \<Rightarrow> int option" where
  "ga2int v = ga2int_loop 0 cigarStrings v"

definition int2ga :: "int \<Rightarrow> py_error + Operation" where
  "int2ga v = py_getitem cigarStrings v"

subsection \<open>SamFlags\<close>

definition READ_PAIRED :: int where "READ_PAIRED = 0x1"
definition READ_PROPER_PAIR :: int where "READ_PROPER_PAIR = 0x2"
definition READ_UNMAPPED :: int where "READ_UNMAPPED = 0x4"
definition MATE_UNMAPPED :: int where "MATE_UNMAPPED = 0x8"
definition READ_REVERSE_STRAND :: int where "READ_REVERSE_STRAND = 0x10"
definition MATE_REVERSE_STRAND :: int where "MATE_REVERSE_STRAND = 0x20"
definition FIRST_IN_PAIR :: int where "FIRST_IN_PAIR = 0x40"
definition SECOND_IN_PAIR :: int where "SECOND_IN_PAIR = 0x80"
definition SECONDARY_ALIGNMENT :: int where "SECONDARY_ALIGNMENT = 0x100"
definition FAILED_QUALITY_CHECK :: int where "FAILED_QUALITY_CHECK = 0x200"
definition DUPLICATE_READ :: int where "DUPLICATE_READ = 0x400"
definition SUPPLEMENTARY_ALIGNMENT :: int where "SUPPLEMENTARY_ALIGNMENT = 0x800"

definition isFlagSet :: "int \<Rightarrow> int \<Rightarrow> bool" where
  "isFlagSet flagAttr flg \<longleftrightarrow> flagAttr AND flg = flg"

definition setFlag :: "int \<Rightarrow> int \<Rightarrow> int" where
  "setFlag flagAttr flg = flagAttr OR flg"

subsection \<open>SamConverter: the header and the target ids\<close>

record Reference =
  ref_name :: string
  ref_length :: int

text \<open>
  The header dictionary: the version under \<^verbatim>\<open>'HD'\<close>, and under \<^verbatim>\<open>'SQ'\<close>, when the
  key is there, one line (\<^verbatim>\<open>'LN'\<close>, \<^verbatim>\<open>'SN'\<close>) for each reference.
\<close>

record SqLine =
  LN :: int
  SN :: string

record Header =
  HD_VN :: string
  SQ :: "SqLine list option"

definition getHeader :: "Reference \<Rightarrow> Header" where
  "getHeader reference =
     \<lparr>HD_VN = ''1.0'',
      SQ = Some [\<lparr>LN = ref_length reference, SN = ref_name reference\<rparr>]\<rparr>"

text \<open>
  The target ids are a \<^verbatim>\<open>collections.defaultdict(int)\<close>: reading a key that is not
  there stores 0 under it and returns 0.
\<close>

type_synonym targetIds = "string \<rightharpoonup> int"

definition dd_getitem :: "targetIds \<Rightarrow> string \<Rightarrow> int \<times> targetIds" where
  "dd_getitem d k = (case d k of None \<Rightarrow> (0, d(k \<mapsto> 0)) | Some v \<Rightarrow> (v, d))"

fun getTargetIds_loop :: "targetIds \<Rightarrow> int \<Rightarrow> SqLine list \<Rightarrow> targetIds" where
  "getTargetIds_loop targetIds targetId [] = targetIds"
| "getTargetIds_loop targetIds targetId (headerLine # headerLines) =
     getTargetIds_loop (targetIds(SN headerLine \<mapsto> targetId)) (targetId + 1) headerLines"

definition getTargetIds :: "Header \<Rightarrow> targetIds" where
  "getTargetIds header =
     (case SQ header of
        None \<Rightarrow> Map.empty
      | Some headerLines \<Rightarrow> getTargetIds_loop Map.empty 0 headerLines)"

subsection \<open>SamLine\<close>

text \<open>
  What a tag carries: the list of values of a tag with several values, the bare number
  of a tag with one numeric value, or the text of any other single value.
\<close>

datatype tag_value = TagList "py_value list" | TagBare py_value | TagText string

text \<open>
  The segment of pysam that the converter fills in, as a plain record: an assignment to
  an attribute stores the value. \<open>seg_mapping_quality\<close> and \<open>seg_cigar\<close> are the
  attributes \<^verbatim>\<open>mapping_quality\<close> and \<^verbatim>\<open>cigar\<close>. The code of a CIGAR tuple is what
  \<^verbatim>\<open>ga2int\<close> returned, \<^verbatim>\<open>None\<close> included.
\<close>

record AlignedSegment =
  query_name :: string
  query_sequence :: string
  flag :: int
  reference_id :: int
  reference_start :: int
  seg_mapping_quality :: int
  seg_cigar :: "(int option \<times> int) list"
  next_reference_id :: int
  next_reference_start :: int
  template_length :: int
  query_qualities :: "int list"
  tags :: "(string \<times> tag_value) list"

text \<open>
  Modelled from the spec: the segment that \<^verbatim>\<open>pysam.AlignedSegment()\<close> returns; pysam
  is not in the source. Its reference ids and positions hold the unmapped sentinel
  \<open>- 1\<close>, its mapping quality is zero, and the rest is empty. The theorems below hold
  for every starting segment; this one serves where a concrete one is needed.
\<close>

definition pysam_AlignedSegment :: AlignedSegment where
  "pysam_AlignedSegment =
     \<lparr>query_name = [], query_sequence = [], flag = 0, reference_id = - 1,
      reference_start = - 1, seg_mapping_quality = 0, seg_cigar = [],
      next_reference_id = - 1, next_reference_start = - 1, template_length = 0,
      query_qualities = [], tags = []\<rparr>"

text \<open>
  \<^verbatim>\<open>toSamFlag\<close>. The test of line 223 calls \<^verbatim>\<open>ByteSize()\<close> on
  \<^verbatim>\<open>read.next_mate_position\<close> without comparing it with \<^verbatim>\<open>None\<close> first, so on
  \<^verbatim>\<open>None\<close> it raises \<^verbatim>\<open>AttributeError\<close>; the tests before it have no effect
  other than on the local \<^verbatim>\<open>flag\<close>.
\<close>

definition toSamFlag :: "ReadAlignment \<Rightarrow> py_error + int" where
  "toSamFlag read =
     (let flg = 0;
          flg = (if number_reads read = 2 then setFlag flg READ_PAIRED else flg);
          flg = (if \<not> improper_placement read then setFlag flg READ_PROPER_PAIR else flg);
          flg = (if alignment read = None then setFlag flg READ_UNMAPPED else flg)
      in case next_mate_position read of
           None \<Rightarrow> Inl AttributeError
         | Some mate \<Rightarrow>
             (let flg = (if ByteSize_is_0 mate then setFlag flg MATE_UNMAPPED else flg);
                  flg = (if (case alignment read of
                               None \<Rightarrow> False
                             | Some a \<Rightarrow> strand (alignment_position a) = NEG_STRAND)
                         then setFlag flg READ_REVERSE_STRAND else flg);
                  flg = (if (case next_mate_position read of
                               None \<Rightarrow> False
                             | Some m \<Rightarrow> strand m = NEG_STRAND)
                         then setFlag flg MATE_REVERSE_STRAND else flg);
                  flg = (if read_number read = - 1 then flg
                         else if read_number read = 0 then setFlag flg FIRST_IN_PAIR
                         else if read_number read = 1 then setFlag flg SECOND_IN_PAIR
                         else setFlag (setFlag flg FIRST_IN_PAIR) SECOND_IN_PAIR);
                  flg = (if secondary_alignment read
                         then setFlag flg SECONDARY_ALIGNMENT else flg);
                  flg = (if failed_vendor_quality_checks read
                         then setFlag flg FAILED_QUALITY_CHECK else flg);
                  flg = (if duplicate_fragment read
                         then setFlag flg DUPLICATE_READ else flg);
                  flg = (if supplementary_alignment read
                         then setFlag flg SUPPLEMENTARY_ALIGNMENT else flg)
              in Inr flg))"

definition toCigar :: "ReadAlignment \<Rightarrow> (int option \<times> int) list" where
  "toCigar read =
     (case alignment read of
        None \<Rightarrow> []
      | Some a \<Rightarrow>
          map (\<lambda>gaCigarUnit. (ga2int (operation gaCigarUnit), operation_length gaCigarUnit))
            (cigar a))"

text \<open>
  \<^verbatim>\<open>isinstance(x, (int, float, long))\<close> on the value of an attribute.
\<close>

fun is_number :: "py_value \<Rightarrow> bool" where
  "is_number (PyInt i) = True"
| "is_number (PyFloat x) = True"
| "is_number (PyStr s) = False"

text \<open>
  \<^verbatim>\<open>_parseTagValue\<close>. With no value at all neither branch of the first test is taken
  before \<^verbatim>\<open>value[0]\<close> is read, which raises \<^verbatim>\<open>IndexError\<close>. \<^verbatim>\<open>str\<close> is only ever
  applied to a value that is not a number.
\<close>

definition parseTagValue :: "AttributeValue list \<Rightarrow> py_error + tag_value" where
  "parseTagValue val =
     (if length val > 1 then Inr (TagList (map getValueFromValue val))
      else case py_getitem val 0 of
             Inl e \<Rightarrow> Inl e
           | Inr v0 \<Rightarrow>
               (case getValueFromValue v0 of
                  PyStr s \<Rightarrow> Inr (TagText (encode (py_str s)))
                | x \<Rightarrow> Inr (TagBare x)))"

fun toTags_loop ::
  "(string \<times> tag_value) list \<Rightarrow> (string \<times> AttributeValue list) list \<Rightarrow>
     py_error + (string \<times> tag_value) list" where
  "toTags_loop tgs [] = Inr tgs"
| "toTags_loop tgs ((tag, vals) # rest) =
     (case parseTagValue vals of
        Inl e \<Rightarrow> Inl e
      | Inr val \<Rightarrow> toTags_loop (tgs @ [(encode tag, val)]) rest)"

definition toTags :: "ReadAlignment \<Rightarrow> py_error + (string \<times> tag_value) list" where
  "toTags read = toTags_loop [] (attributes read)"

text \<open>
  \<^verbatim>\<open>toAlignedSegment\<close>. The first argument is the value of \<^verbatim>\<open>pysam.AlignedSegment()\<close>,
  whose fields the function leaves as they are where it assigns nothing. The result
  carries the target ids as the lookups leave them.
\<close>

definition toAlignedSegment ::
  "AlignedSegment \<Rightarrow> ReadAlignment \<Rightarrow> targetIds \<Rightarrow> py_error + (AlignedSegment \<times> targetIds)" where
  "toAlignedSegment new read targetIds =
     (let ret = new\<lparr>query_name := encode (fragment_name read)\<rparr>;
          ret = ret\<lparr>query_sequence := encode (aligned_sequence read)\<rparr>
      in case toSamFlag read of
           Inl e \<Rightarrow> Inl e
         | Inr flg \<Rightarrow>
             (let ret = ret\<lparr>flag := flg\<rparr>;
                  (ret, targetIds) =
                     (case alignment read of
                        None \<Rightarrow> (ret, targetIds)
                      | Some a \<Rightarrow>
                          (let refName = reference_name (alignment_position a);
                               (targetId, targetIds) = dd_getitem targetIds refName
                           in (ret\<lparr>reference_id := targetId\<rparr>, targetIds)));
                  ret = (case alignment read of
                           None \<Rightarrow> ret\<lparr>reference_start := 0\<rparr>
                         | Some a \<Rightarrow> ret\<lparr>reference_start := position (alignment_position a)\<rparr>);
                  ret = (case alignment read of
                           None \<Rightarrow> ret
                         | Some a \<Rightarrow> ret\<lparr>seg_mapping_quality := mapping_quality a\<rparr>);
                  ret = ret\<lparr>seg_cigar := toCigar read\<rparr>;
                  (ret, targetIds) =
                     (case next_mate_position read of
                        None \<Rightarrow> (ret\<lparr>next_reference_id := - 1\<rparr>, targetIds)
                      | Some mate \<Rightarrow>
                          (let nextRefName = reference_name mate;
                               (targetId, targetIds) = dd_getitem targetIds nextRefName
                           in (ret\<lparr>next_reference_id := targetId\<rparr>, targetIds)));
                  ret = (case next_mate_position read of
                           None \<Rightarrow> ret\<lparr>next_reference_start := - 1\<rparr>
                         | Some mate \<Rightarrow> ret\<lparr>next_reference_start := position mate\<rparr>);
                  ret = ret\<lparr>template_length := fragment_length read\<rparr>;
                  ret = ret\<lparr>query_qualities := aligned_quality read\<rparr>
              in case toTags read of
                   Inl e \<Rightarrow> Inl e
                 | Inr tgs \<Rightarrow> Inr (ret\<lparr>tags := tgs\<rparr>, targetIds)))"

subsection \<open>Messages that were not set\<close>

text \<open>
  Modelled from the spec: what a read of the protocol gives for a mate position, or an
  alignment, that was not set; the protocol is not in the source. It is the message with
  every field at its zero or default value, the one the specification calls absent or
  cleared.
\<close>

definition unset_Position :: Position where
  "unset_Position = \<lparr>reference_name = [], position = 0, strand = STRAND_UNSPECIFIED\<rparr>"

definition unset_LinearAlignment :: LinearAlignment where
  "unset_LinearAlignment =
     \<lparr>alignment_position = unset_Position, mapping_quality = 0, cigar = []\<rparr>"

subsection \<open>The scenarios of the specification\<close>

text \<open>
  The end-to-end scenario: the reference \<^verbatim>\<open>chr1\<close> of length 1000 and a mapped,
  forward-strand, paired, proper-pair read. The scenario fixes neither the qualities nor
  the strand of the mate, which are arguments here.
\<close>

definition scenario_reference :: Reference where
  "scenario_reference = \<lparr>ref_name = ''chr1'', ref_length = 1000\<rparr>"

definition scenario_read :: "int list \<Rightarrow> Strand \<Rightarrow> ReadAlignment" where
  "scenario_read quals mate_strand =
     \<lparr>fragment_name = ''r1'',
      aligned_sequence = ''ACGT'',
      aligned_quality = quals,
      alignment = Some
        \<lparr>alignment_position =
           \<lparr>reference_name = ''chr1'', position = 100, strand = POS_STRAND\<rparr>,
         mapping_quality = 60,
         cigar = [\<lparr>operation = ALIGNMENT_MATCH, operation_length = 4\<rparr>]\<rparr>,
      next_mate_position = Some
        \<lparr>reference_name = ''chr1'', position = 200, strand = mate_strand\<rparr>,
      number_reads = 2,
      improper_placement = False,
      read_number = 0,
      secondary_alignment = False,
      failed_vendor_quality_checks = False,
      duplicate_fragment = False,
      supplementary_alignment = False,
      fragment_length = 150,
      attributes = []\<rparr>"

text \<open>
  The tag rule in the words of the specification: more than one value is emitted as the
  sequence of the values; one numeric value is emitted bare; one other value is emitted
  as text. The specification says nothing of a tag with no value.
\<close>

fun spec_tag_value :: "py_value list \<Rightarrow> tag_value" where
  "spec_tag_value [PyStr s] = TagText s"
| "spec_tag_value [x] = TagBare x"
| "spec_tag_value xs = TagList xs"

section \<open>Properties\<close>

subsection \<open>The CIGAR table\<close>

lemma ga2int_vals:
  "ga2int ALIGNMENT_MATCH = Some 0" "ga2int INSERT = Some 1" "ga2int DELETE = Some 2"
  "ga2int SKIP = Some 3" "ga2int CLIP_SOFT = Some 4" "ga2int CLIP_HARD = Some 5"
  "ga2int PAD = Some 6" "ga2int SEQUENCE_MATCH = Some 7" "ga2int SEQUENCE_MISMATCH = Some 8"
  "ga2int OPERATION_UNSPECIFIED = None"
  by (simp_all add: ga2int_def cigarStrings_def)

lemma int2ga_vals:
  "int2ga 0 = Inr ALIGNMENT_MATCH" "int2ga 1 = Inr INSERT" "int2ga 2 = Inr DELETE"
  "int2ga 3 = Inr SKIP" "int2ga 4 = Inr CLIP_SOFT" "int2ga 5 = Inr CLIP_HARD"
  "int2ga 6 = Inr PAD" "int2ga 7 = Inr SEQUENCE_MATCH" "int2ga 8 = Inr SEQUENCE_MISMATCH"
  by (simp_all add: int2ga_def py_getitem_def cigarStrings_def)

text \<open>
  C3. Each of the nine operation kinds of \<open>cigarStrings\<close> gets a code from \<open>ga2int\<close>
  that \<open>int2ga\<close> maps back to the kind, and the codes are those of SAM:
  0 = M, 1 = I, 2 = D, 3 = N, 4 = S, 5 = H, 6 = P, 7 = =, 8 = X.
\<close>

theorem cigar_round_trip:
  "(\<forall>k \<in> set cigarStrings. \<exists>i. ga2int k = Some i \<and> int2ga i = Inr k) \<and>
   length cigarStrings = 9 \<and> distinct cigarStrings \<and>
   map ga2int [ALIGNMENT_MATCH, INSERT, DELETE, SKIP, CLIP_SOFT, CLIP_HARD, PAD,
               SEQUENCE_MATCH, SEQUENCE_MISMATCH]
     = map Some [0, 1, 2, 3, 4, 5, 6, 7, 8]"
proof -
  have "\<forall>k \<in> set cigarStrings. \<exists>i. ga2int k = Some i \<and> int2ga i = Inr k"
    unfolding cigarStrings_def by (simp add: ga2int_vals int2ga_vals)
  moreover have "length cigarStrings = 9 \<and> distinct cigarStrings"
    by (simp add: cigarStrings_def)
  ultimately show ?thesis by (simp add: ga2int_vals)
qed

theorem cigar_round_trip_witness:
  "SKIP \<in> set cigarStrings \<and> ga2int SKIP = Some 3 \<and> int2ga 3 = Inr SKIP"
  using cigar_round_trip by (simp add: cigarStrings_def ga2int_vals int2ga_vals)

text \<open>
  C4, as stated, fails: the code \<open>- 1\<close> is outside 0..8, and \<open>int2ga\<close> returns the
  last entry of the table for it, since a Python list takes a negative index from its
  end.
\<close>

theorem int2ga_negative_counterexample:
  "(- 1 :: int) < 0 \<and> int2ga (- 1) = Inr SEQUENCE_MISMATCH \<and> int2ga (- 1) \<noteq> Inl IndexError"
  by (simp add: int2ga_def py_getitem_def cigarStrings_def)

text \<open>
  C4, amended. \<open>int2ga\<close> fails with \<^verbatim>\<open>IndexError\<close> for every code above 8 and every
  code below \<open>- 9\<close>. A code from \<open>- 9\<close> to \<open>- 1\<close> does not fail: it gives the kind of
  the code nine above it.
\<close>

theorem int2ga_out_of_range:
  "(v < - 9 \<or> 8 < v \<longrightarrow> int2ga v = Inl IndexError) \<and>
   (- 9 \<le> v \<and> v < 0 \<longrightarrow> int2ga v = int2ga (v + 9) \<and> int2ga v \<noteq> Inl IndexError)"
  by (auto simp add: int2ga_def py_getitem_def cigarStrings_def add.commute)

theorem int2ga_out_of_range_witness:
  "int2ga 9 = Inl IndexError \<and> int2ga (- 10) = Inl IndexError \<and>
   int2ga (- 9) = Inr ALIGNMENT_MATCH"
  using int2ga_out_of_range [of 9] int2ga_out_of_range [of "- 10"]
    int2ga_out_of_range [of "- 9"]
  by (simp add: int2ga_vals)

subsection \<open>The flag bits\<close>

lemma flag_powers:
  "READ_PAIRED = 2 ^ 0" "READ_PROPER_PAIR = 2 ^ 1" "READ_UNMAPPED = 2 ^ 2"
  "MATE_UNMAPPED = 2 ^ 3" "READ_REVERSE_STRAND = 2 ^ 4" "MATE_REVERSE_STRAND = 2 ^ 5"
  "FIRST_IN_PAIR = 2 ^ 6" "SECOND_IN_PAIR = 2 ^ 7" "SECONDARY_ALIGNMENT = 2 ^ 8"
  "FAILED_QUALITY_CHECK = 2 ^ 9" "DUPLICATE_READ = 2 ^ 10" "SUPPLEMENTARY_ALIGNMENT = 2 ^ 11"
  by (simp_all add: READ_PAIRED_def READ_PROPER_PAIR_def READ_UNMAPPED_def MATE_UNMAPPED_def
      READ_REVERSE_STRAND_def MATE_REVERSE_STRAND_def FIRST_IN_PAIR_def SECOND_IN_PAIR_def
      SECONDARY_ALIGNMENT_def FAILED_QUALITY_CHECK_def DUPLICATE_READ_def
      SUPPLEMENTARY_ALIGNMENT_def)

lemma isFlagSet_power: "isFlagSet f (2 ^ k) = bit f k"
  unfolding isFlagSet_def
proof
  assume "f AND 2 ^ k = 2 ^ k"
  then have "bit (f AND 2 ^ k) k = bit (2 ^ k :: int) k" by simp
  then show "bit f k" by (simp add: bit_and_iff bit_exp_iff)
next
  assume k: "bit f k"
  show "f AND 2 ^ k = 2 ^ k"
    by (rule bit_eqI) (use k in \<open>auto simp add: bit_and_iff bit_exp_iff\<close>)
qed

text \<open>
  C8. Setting a bit \<open>B\<close> in 0 makes \<open>isFlagSet\<close> true of \<open>B\<close>, for every \<open>B\<close> and so for
  the twelve flags, which are the powers of two from \<open>0x1\<close> to \<open>0x800\<close>. For every
  \<open>f\<close> and \<open>B\<close>, a bit of \<open>setFlag f B\<close> is set exactly when it is set in \<open>f\<close> or in
  \<open>B\<close>: only bits of \<open>B\<close> are added and every bit of \<open>f\<close> stays set.
\<close>

theorem flag_bit_independence:
  "isFlagSet (setFlag 0 B) B \<and>
   bit (setFlag f B) n = (bit f n \<or> bit B n) \<and>
   isFlagSet (setFlag f B) f \<and>
   [READ_PAIRED, READ_PROPER_PAIR, READ_UNMAPPED, MATE_UNMAPPED, READ_REVERSE_STRAND,
    MATE_REVERSE_STRAND, FIRST_IN_PAIR, SECOND_IN_PAIR, SECONDARY_ALIGNMENT,
    FAILED_QUALITY_CHECK, DUPLICATE_READ, SUPPLEMENTARY_ALIGNMENT]
     = map (\<lambda>i. 2 ^ i) [0 ..< 12]"
proof -
  have "isFlagSet (setFlag 0 B) B" by (simp add: isFlagSet_def setFlag_def)
  moreover have "bit (setFlag f B) n = (bit f n \<or> bit B n)"
    by (simp add: setFlag_def bit_or_iff)
  moreover have "isFlagSet (setFlag f B) f"
    unfolding isFlagSet_def setFlag_def
    by (rule bit_eqI) (auto simp add: bit_and_iff bit_or_iff)
  moreover have "[0 ..< 12] = [0, 1, 2, 3, 4, 5, 6, 7, 8, 9, 10, 11::nat]"
    by (simp add: upt_rec)
  ultimately show ?thesis by (simp add: flag_powers)
qed

subsection \<open>The flag of a read\<close>

lemma toSamFlag_no_mate:
  "next_mate_position read = None \<Longrightarrow> toSamFlag read = Inl AttributeError"
  by (simp add: toSamFlag_def Let_def)

lemma if_setFlag: "(if c then setFlag f B else f) = f OR (if c then B else 0)"
  by (simp add: setFlag_def)

lemma bit_if_power: "bit (if c then 2 ^ k else (0::int)) n = (n = k \<and> c)"
  by (auto simp add: bit_exp_iff)

lemma pair_member_flags:
  "(if rn = - 1 then f
    else if rn = 0 then setFlag f (2 ^ 6)
    else if rn = 1 then setFlag f (2 ^ 7)
    else setFlag (setFlag f (2 ^ 6)) (2 ^ 7))
   = (f OR (if rn \<noteq> - 1 \<and> rn \<noteq> 1 then 2 ^ 6 else 0))
       OR (if rn \<noteq> - 1 \<and> rn \<noteq> (0::int) then 2 ^ 7 else 0)"
  unfolding setFlag_def by simp

lemma read_reverse_test:
  "(case al of None \<Rightarrow> False | Some a \<Rightarrow> strand (alignment_position a) = NEG_STRAND)
     = (\<exists>a. al = Some a \<and> strand (alignment_position a) = NEG_STRAND)"
  by (cases al) simp_all

lemma toSamFlag_bits:
  assumes "next_mate_position read = Some mate"
  shows "\<exists>f. toSamFlag read = Inr f \<and>
    (\<forall>n. bit f n =
      (n = 0 \<and> number_reads read = 2 \<or>
       n = 1 \<and> \<not> improper_placement read \<or>
       n = 2 \<and> alignment read = None \<or>
       n = 3 \<and> ByteSize_is_0 mate \<or>
       n = 4 \<and> (\<exists>a. alignment read = Some a \<and> strand (alignment_position a) = NEG_STRAND) \<or>
       n = 5 \<and> strand mate = NEG_STRAND \<or>
       n = 6 \<and> read_number read \<noteq> - 1 \<and> read_number read \<noteq> 1 \<or>
       n = 7 \<and> read_number read \<noteq> - 1 \<and> read_number read \<noteq> 0 \<or>
       n = 8 \<and> secondary_alignment read \<or>
       n = 9 \<and> failed_vendor_quality_checks read \<or>
       n = 10 \<and> duplicate_fragment read \<or>
       n = 11 \<and> supplementary_alignment read))"
  unfolding toSamFlag_def Let_def assms option.case flag_powers pair_member_flags
    read_reverse_test if_setFlag
  by (simp only: bit_or_iff bit_if_power bit_0_eq sum.inject simp_thms
      disj_assoc bot_apply bot_bool_def)

subsection \<open>The segment of a read\<close>

lemma dd_getitem_fst: "fst (dd_getitem d k) = (case d k of None \<Rightarrow> 0 | Some v \<Rightarrow> v)"
  by (simp add: dd_getitem_def split: option.splits)

lemma dd_getitem_again:
  "fst (dd_getitem (snd (dd_getitem d j)) k) = fst (dd_getitem d k)"
  by (simp add: dd_getitem_def split: option.splits)

lemma toAlignedSegment_no_mate:
  "next_mate_position read = None \<Longrightarrow> toAlignedSegment new read tids = Inl AttributeError"
  by (simp add: toAlignedSegment_def Let_def toSamFlag_no_mate)

lemma toAlignedSegment_unmapped:
  assumes al: "alignment read = None"
    and mate: "next_mate_position read = Some mate"
    and f: "toSamFlag read = Inr f"
    and tgs: "toTags read = Inr tgs"
  shows "toAlignedSegment new read tids =
    Inr (new\<lparr>query_name := encode (fragment_name read),
             query_sequence := encode (aligned_sequence read),
             flag := f,
             reference_start := 0,
             seg_cigar := toCigar read,
             next_reference_id := fst (dd_getitem tids (reference_name mate)),
             next_reference_start := position mate,
             template_length := fragment_length read,
             query_qualities := aligned_quality read,
             tags := tgs\<rparr>,
         snd (dd_getitem tids (reference_name mate)))"
  unfolding toAlignedSegment_def f sum.case
  apply (simp only: al mate option.case Let_def split_beta fst_conv snd_conv tgs sum.case)
  done

lemma toAlignedSegment_mapped:
  assumes al: "alignment read = Some a"
    and mate: "next_mate_position read = Some mate"
    and f: "toSamFlag read = Inr f"
    and tgs: "toTags read = Inr tgs"
  shows "toAlignedSegment new read tids =
    Inr (new\<lparr>query_name := encode (fragment_name read),
             query_sequence := encode (aligned_sequence read),
             flag := f,
             reference_id := fst (dd_getitem tids (reference_name (alignment_position a))),
             reference_start := position (alignment_position a),
             seg_mapping_quality := mapping_quality a,
             seg_cigar := toCigar read,
             next_reference_id :=
               fst (dd_getitem (snd (dd_getitem tids (reference_name (alignment_position a))))
                      (reference_name mate)),
             next_reference_start := position mate,
             template_length := fragment_length read,
             query_qualities := aligned_quality read,
             tags := tgs\<rparr>,
         snd (dd_getitem (snd (dd_getitem tids (reference_name (alignment_position a))))
                (reference_name mate)))"
  unfolding toAlignedSegment_def f sum.case
  by (simp only: al mate option.case Let_def split_beta fst_conv snd_conv tgs sum.case)

lemma toSamFlag_returns:
  "next_mate_position read = Some mate \<Longrightarrow> \<exists>f. toSamFlag read = Inr f"
  unfolding toSamFlag_def Let_def by simp

lemma toAlignedSegment_fields:
  assumes mate: "next_mate_position read = Some mate"
    and tgs: "toTags read = Inr tgs"
  shows "\<exists>seg tids' f. toAlignedSegment new read tids = Inr (seg, tids') \<and>
    toSamFlag read = Inr f \<and> flag seg = f \<and>
    query_name seg = encode (fragment_name read) \<and>
    query_sequence seg = encode (aligned_sequence read) \<and>
    reference_id seg =
      (case alignment read of
         None \<Rightarrow> reference_id new
       | Some a \<Rightarrow> fst (dd_getitem tids (reference_name (alignment_position a)))) \<and>
    reference_start seg =
      (case alignment read of None \<Rightarrow> 0 | Some a \<Rightarrow> position (alignment_position a)) \<and>
    seg_mapping_quality seg =
      (case alignment read of
         None \<Rightarrow> seg_mapping_quality new
       | Some a \<Rightarrow> mapping_quality a) \<and>
    seg_cigar seg = toCigar read \<and>
    next_reference_id seg = fst (dd_getitem tids (reference_name mate)) \<and>
    next_reference_start seg = position mate \<and>
    template_length seg = fragment_length read \<and>
    query_qualities seg = aligned_quality read \<and>
    tags seg = tgs"
proof -
  from toSamFlag_returns [OF mate] obtain f where f: "toSamFlag read = Inr f" ..
  show ?thesis
  proof (cases "alignment read")
    case None
    show ?thesis
      unfolding toAlignedSegment_unmapped [OF None mate f tgs] None f
      by simp
  next
    case (Some a)
    show ?thesis
      unfolding toAlignedSegment_mapped [OF Some mate f tgs] Some f
      by (simp add: dd_getitem_again)
  qed
qed

subsection \<open>Flags and the absent mate\<close>

lemma toSamFlag_flags:
  assumes "next_mate_position read = Some mate"
  shows "\<exists>f. toSamFlag read = Inr f \<and>
    isFlagSet f READ_PAIRED = (number_reads read = 2) \<and>
    isFlagSet f READ_PROPER_PAIR = (\<not> improper_placement read) \<and>
    isFlagSet f READ_UNMAPPED = (alignment read = None) \<and>
    isFlagSet f MATE_UNMAPPED = ByteSize_is_0 mate \<and>
    isFlagSet f READ_REVERSE_STRAND =
      (\<exists>a. alignment read = Some a \<and> strand (alignment_position a) = NEG_STRAND) \<and>
    isFlagSet f MATE_REVERSE_STRAND = (strand mate = NEG_STRAND) \<and>
    isFlagSet f FIRST_IN_PAIR = (read_number read \<noteq> - 1 \<and> read_number read \<noteq> 1) \<and>
    isFlagSet f SECOND_IN_PAIR = (read_number read \<noteq> - 1 \<and> read_number read \<noteq> 0) \<and>
    isFlagSet f SECONDARY_ALIGNMENT = secondary_alignment read \<and>
    isFlagSet f FAILED_QUALITY_CHECK = failed_vendor_quality_checks read \<and>
    isFlagSet f DUPLICATE_READ = duplicate_fragment read \<and>
    isFlagSet f SUPPLEMENTARY_ALIGNMENT = supplementary_alignment read"
  using toSamFlag_bits [OF assms]
  apply (elim exE conjE)
  subgoal for f
    apply (rule exI [of _ f])
    apply (simp only: flag_powers isFlagSet_power)
    apply simp
    done
  done

lemma isFlagSet_or:
  "isFlagSet f (a OR b) = (isFlagSet f a \<and> isFlagSet f b)"
  unfolding isFlagSet_def
proof
  assume h: "f AND (a OR b) = a OR b"
  have "f AND a = a"
    by (rule bit_eqI) (use h in \<open>auto simp add: bit_eq_iff bit_and_iff bit_or_iff\<close>)
  moreover have "f AND b = b"
    by (rule bit_eqI) (use h in \<open>auto simp add: bit_eq_iff bit_and_iff bit_or_iff\<close>)
  ultimately show "f AND a = a \<and> f AND b = b" ..
next
  assume h: "f AND a = a \<and> f AND b = b"
  then have "f AND (a OR b) = (f AND a) OR (f AND b)"
    by (simp add: bit.conj_disj_distrib)
  with h show "f AND (a OR b) = a OR b" by simp
qed

text \<open>
  C5. When the flag is computed (the mate position is a message), a read number of
  \<open>- 1\<close> sets neither pair-member bit, 0 sets only first-in-pair, 1 sets only
  second-in-pair, and any other value sets both; with read number 2 and two reads the
  flag contains \<open>0x1 | 0x40 | 0x80\<close>.
\<close>

theorem pair_member_bits:
  assumes "next_mate_position read = Some mate"
  shows "\<exists>f. toSamFlag read = Inr f \<and>
    (read_number read = - 1 \<longrightarrow>
       \<not> isFlagSet f FIRST_IN_PAIR \<and> \<not> isFlagSet f SECOND_IN_PAIR) \<and>
    (read_number read = 0 \<longrightarrow>
       isFlagSet f FIRST_IN_PAIR \<and> \<not> isFlagSet f SECOND_IN_PAIR) \<and>
    (read_number read = 1 \<longrightarrow>
       \<not> isFlagSet f FIRST_IN_PAIR \<and> isFlagSet f SECOND_IN_PAIR) \<and>
    (read_number read \<notin> {- 1, 0, 1} \<longrightarrow>
       isFlagSet f FIRST_IN_PAIR \<and> isFlagSet f SECOND_IN_PAIR) \<and>
    (read_number read = 2 \<and> number_reads read = 2 \<longrightarrow>
       isFlagSet f (0x1 OR 0x40 OR 0x80))"
proof -
  from toSamFlag_flags [OF assms] obtain f where f: "toSamFlag read = Inr f"
    and paired: "isFlagSet f READ_PAIRED = (number_reads read = 2)"
    and first: "isFlagSet f FIRST_IN_PAIR = (read_number read \<noteq> - 1 \<and> read_number read \<noteq> 1)"
    and second: "isFlagSet f SECOND_IN_PAIR = (read_number read \<noteq> - 1 \<and> read_number read \<noteq> 0)"
    by (elim exE conjE)
  have both: "isFlagSet g (0x1 OR 0x40 OR 0x80)
      = (isFlagSet g READ_PAIRED \<and> isFlagSet g FIRST_IN_PAIR \<and> isFlagSet g SECOND_IN_PAIR)"
    for g
    unfolding READ_PAIRED_def FIRST_IN_PAIR_def SECOND_IN_PAIR_def
    by (simp only: isFlagSet_or)
  show ?thesis
    unfolding both
    by (rule exI [of _ f]) (simp add: f paired first second)
qed

theorem pair_member_bits_witness:
  "toSamFlag (scenario_read [] POS_STRAND\<lparr>read_number := 2\<rparr>) = Inr 0xC3 \<and>
   isFlagSet 0xC3 (0x1 OR 0x40 OR 0x80) \<and>
   toSamFlag (scenario_read [] POS_STRAND\<lparr>read_number := - 1\<rparr>) = Inr 0x3 \<and>
   \<not> isFlagSet 0x3 FIRST_IN_PAIR \<and> \<not> isFlagSet 0x3 SECOND_IN_PAIR \<and>
   toSamFlag (scenario_read [] POS_STRAND\<lparr>read_number := 0\<rparr>) = Inr 0x43 \<and>
   isFlagSet 0x43 FIRST_IN_PAIR \<and> \<not> isFlagSet 0x43 SECOND_IN_PAIR \<and>
   toSamFlag (scenario_read [] POS_STRAND\<lparr>read_number := 1\<rparr>) = Inr 0x83 \<and>
   \<not> isFlagSet 0x83 FIRST_IN_PAIR \<and> isFlagSet 0x83 SECOND_IN_PAIR"
proof -
  let ?mate = "\<lparr>reference_name = ''chr1'', position = 200, strand = POS_STRAND\<rparr>"
  have m: "next_mate_position (scenario_read [] POS_STRAND\<lparr>read_number := n\<rparr>) = Some ?mate"
    for n
    by (simp add: scenario_read_def)
  have v: "toSamFlag (scenario_read [] POS_STRAND\<lparr>read_number := 2\<rparr>) = Inr 0xC3"
    "toSamFlag (scenario_read [] POS_STRAND\<lparr>read_number := - 1\<rparr>) = Inr 0x3"
    "toSamFlag (scenario_read [] POS_STRAND\<lparr>read_number := 0\<rparr>) = Inr 0x43"
    "toSamFlag (scenario_read [] POS_STRAND\<lparr>read_number := 1\<rparr>) = Inr 0x83"
    by (simp_all add: toSamFlag_def scenario_read_def setFlag_def ByteSize_is_0_def
        READ_PAIRED_def READ_PROPER_PAIR_def FIRST_IN_PAIR_def SECOND_IN_PAIR_def)
  have n: "number_reads (scenario_read [] POS_STRAND\<lparr>read_number := k\<rparr>) = 2" for k
    by (simp add: scenario_read_def)
  show ?thesis
    using pair_member_bits [OF m [of 2], unfolded v]
      pair_member_bits [OF m [of "- 1"], unfolded v]
      pair_member_bits [OF m [of 0], unfolded v]
      pair_member_bits [OF m [of 1], unfolded v]
    by (simp add: v n)
qed

subsection \<open>The end-to-end scenario\<close>

text \<open>
  C1. For the reference \<^verbatim>\<open>chr1\<close> of length 1000 the header gives \<^verbatim>\<open>chr1\<close> the target
  id 0, and the scenario's read is transcoded to flag \<open>0x43\<close>, reference id 0, position
  100, mapping quality 60, CIGAR \<open>[(0, 4)]\<close>, mate reference id 0, mate position 200 and
  template length 150, whatever the qualities and for a mate that is not on the reverse
  strand.
\<close>

theorem end_to_end_scenario:
  assumes "mate_strand \<noteq> NEG_STRAND"
  shows "getTargetIds (getHeader scenario_reference) ''chr1'' = Some 0 \<and>
    (\<exists>seg tids'.
       toAlignedSegment new (scenario_read quals mate_strand)
         (getTargetIds (getHeader scenario_reference)) = Inr (seg, tids') \<and>
       flag seg = 0x43 \<and> reference_id seg = 0 \<and> reference_start seg = 100 \<and>
       seg_mapping_quality seg = 60 \<and> seg_cigar seg = [(Some 0, 4)] \<and>
       next_reference_id seg = 0 \<and> next_reference_start seg = 200 \<and>
       template_length seg = 150)"
proof -
  let ?read = "scenario_read quals mate_strand"
  let ?tids = "getTargetIds (getHeader scenario_reference)"
  let ?mate = "\<lparr>reference_name = ''chr1'', position = 200, strand = mate_strand\<rparr>"
  have ids: "?tids ''chr1'' = Some 0"
    by (simp add: getTargetIds_def getHeader_def scenario_reference_def)
  have mate: "next_mate_position ?read = Some ?mate"
    by (simp add: scenario_read_def)
  have tgs: "toTags ?read = Inr []"
    by (simp add: toTags_def scenario_read_def)
  have flg: "toSamFlag ?read = Inr 0x43"
    using assms
    by (simp add: toSamFlag_def scenario_read_def setFlag_def ByteSize_is_0_def
        READ_PAIRED_def READ_PROPER_PAIR_def FIRST_IN_PAIR_def)
  have cig: "toCigar ?read = [(Some 0, 4)]"
    by (simp add: toCigar_def scenario_read_def ga2int_vals)
  have al: "alignment ?read = Some
      \<lparr>alignment_position = \<lparr>reference_name = ''chr1'', position = 100, strand = POS_STRAND\<rparr>,
       mapping_quality = 60,
       cigar = [\<lparr>operation = ALIGNMENT_MATCH, operation_length = 4\<rparr>]\<rparr>"
    by (simp add: scenario_read_def)
  have len: "fragment_length ?read = 150"
    by (simp add: scenario_read_def)
  from toAlignedSegment_fields [OF mate tgs, of new ?tids]
  show ?thesis
    unfolding flg cig al len
    by (elim exE conjE) (simp add: ids dd_getitem_fst)
qed

theorem end_to_end_scenario_witness:
  "POS_STRAND \<noteq> NEG_STRAND \<and>
   (\<exists>seg tids'.
       toAlignedSegment pysam_AlignedSegment (scenario_read [30, 30, 30, 30] POS_STRAND)
         (getTargetIds (getHeader scenario_reference)) = Inr (seg, tids') \<and>
       flag seg = 0x43 \<and> reference_id seg = 0 \<and> reference_start seg = 100 \<and>
       seg_mapping_quality seg = 60 \<and> seg_cigar seg = [(Some 0, 4)] \<and>
       next_reference_id seg = 0 \<and> next_reference_start seg = 200 \<and>
       template_length seg = 150)"
proof -
  have h: "POS_STRAND \<noteq> NEG_STRAND" by simp
  from end_to_end_scenario [OF h, of pysam_AlignedSegment "[30, 30, 30, 30]"] h
  show ?thesis by blast
qed

subsection \<open>Tags\<close>

lemma parseTagValue_spec:
  "vals \<noteq> [] \<Longrightarrow> parseTagValue vals = Inr (spec_tag_value (map getValueFromValue vals))"
proof (cases vals)
  case Nil
  assume "vals \<noteq> []"
  with Nil show ?thesis by simp
next
  case (Cons v rest)
  show ?thesis
  proof (cases rest)
    case Nil
    with Cons show ?thesis
      by (cases "getValueFromValue v")
        (simp_all add: parseTagValue_def py_getitem_def encode_def py_str_def)
  next
    case (Cons w rest')
    with \<open>vals = v # rest\<close> show ?thesis
      by (simp add: parseTagValue_def)
  qed
qed

lemma parseTagValue_empty: "parseTagValue [] = Inl IndexError"
  by (simp add: parseTagValue_def py_getitem_def)

lemma toTags_loop_spec:
  "\<forall>(tag, vals) \<in> set attrs. vals \<noteq> [] \<Longrightarrow>
   toTags_loop acc attrs =
     Inr (acc @ map (\<lambda>(tag, vals). (tag, spec_tag_value (map getValueFromValue vals))) attrs)"
proof (induction attrs arbitrary: acc)
  case Nil
  show ?case by simp
next
  case (Cons p attrs)
  obtain tag vals where p: "p = (tag, vals)" by (cases p)
  from Cons.prems p have ne: "vals \<noteq> []" and rest: "\<forall>(tag, vals) \<in> set attrs. vals \<noteq> []"
    by simp_all
  show ?case
    by (simp add: p parseTagValue_spec [OF ne] Cons.IH [OF rest] encode_def)
qed

text \<open>
  C6. A tag with more than one value is emitted as the list of its values in their
  order; a tag with one numeric value (an integer or a float) as the bare number; a tag
  with one value that is not numeric as text, here the string itself. With at least one
  value under every tag, \<^verbatim>\<open>toTags\<close> emits the tags of the read in order, each as the
  rule of the specification says.
\<close>

theorem tag_encoding:
  "(length vals > 1 \<longrightarrow> parseTagValue vals = Inr (TagList (map getValueFromValue vals))) \<and>
   (is_number (getValueFromValue v) \<longrightarrow>
      parseTagValue [v] = Inr (TagBare (getValueFromValue v))) \<and>
   (\<not> is_number (getValueFromValue v) \<longrightarrow>
      (\<exists>s. getValueFromValue v = PyStr s \<and> parseTagValue [v] = Inr (TagText s))) \<and>
   ((\<forall>(tag, vals) \<in> set (attributes read). vals \<noteq> []) \<longrightarrow>
      toTags read =
        Inr (map (\<lambda>(tag, vals). (tag, spec_tag_value (map getValueFromValue vals)))
               (attributes read)))"
proof -
  have many: "length vals > 1 \<longrightarrow> parseTagValue vals = Inr (TagList (map getValueFromValue vals))"
    by (simp add: parseTagValue_def)
  have one: "parseTagValue [v] = Inr (spec_tag_value [getValueFromValue v])"
    using parseTagValue_spec [of "[v]"] by simp
  have num: "is_number (getValueFromValue v) \<longrightarrow>
      parseTagValue [v] = Inr (TagBare (getValueFromValue v))"
    unfolding one by (cases "getValueFromValue v") simp_all
  have textual: "\<not> is_number (getValueFromValue v) \<longrightarrow>
      (\<exists>s. getValueFromValue v = PyStr s \<and> parseTagValue [v] = Inr (TagText s))"
    unfolding one by (cases "getValueFromValue v") simp_all
  have all: "(\<forall>(tag, vals) \<in> set (attributes read). vals \<noteq> []) \<longrightarrow>
      toTags read =
        Inr (map (\<lambda>(tag, vals). (tag, spec_tag_value (map getValueFromValue vals)))
               (attributes read))"
    using toTags_loop_spec [of "attributes read" "[]"] by (simp add: toTags_def)
  from many num textual all show ?thesis by (intro conjI)
qed

theorem tag_encoding_witness:
  "toTags (scenario_read [] POS_STRAND
      \<lparr>attributes := [(''NM'', [Int64Value 3]), (''XS'', [DoubleValue (3 / 2)]),
                      (''RG'', [StringValue ''grp'']),
                      (''XA'', [StringValue ''a'', Int64Value 7])]\<rparr>)
     = Inr [(''NM'', TagBare (PyInt 3)), (''XS'', TagBare (PyFloat (3 / 2))),
            (''RG'', TagText ''grp''),
            (''XA'', TagList [PyStr ''a'', PyInt 7])] \<and>
   parseTagValue [StringValue ''a'', Int64Value 7] = Inr (TagList [PyStr ''a'', PyInt 7]) \<and>
   parseTagValue [Int64Value 3] = Inr (TagBare (PyInt 3)) \<and>
   parseTagValue [StringValue ''grp''] = Inr (TagText ''grp'')"
  using tag_encoding [of "[StringValue ''a'', Int64Value 7]" "Int64Value 3"
      "scenario_read [] POS_STRAND
        \<lparr>attributes := [(''NM'', [Int64Value 3]), (''XS'', [DoubleValue (3 / 2)]),
                        (''RG'', [StringValue ''grp'']),
                        (''XA'', [StringValue ''a'', Int64Value 7])]\<rparr>"]
    tag_encoding [of "[]" "StringValue ''grp''" "scenario_read [] POS_STRAND"]
  by simp

subsection \<open>Reference names and the table of target ids\<close>

lemma getTargetIds_loop_bound:
  "getTargetIds_loop t i ls k = Some v \<Longrightarrow> t k = Some v \<or> i \<le> v"
proof (induction ls arbitrary: t i)
  case Nil
  then show ?case by simp
next
  case (Cons l ls)
  from Cons.prems have "getTargetIds_loop (t(SN l \<mapsto> i)) (i + 1) ls k = Some v" by simp
  from Cons.IH [OF this] show ?case by (auto split: if_splits)
qed

lemma getTargetIds_nonneg: "getTargetIds header k = Some v \<Longrightarrow> 0 \<le> v"
  unfolding getTargetIds_def
  by (cases "SQ header") (auto dest: getTargetIds_loop_bound)

text \<open>
  C10. For a read whose mate position is a message with every field at its zero or
  default value, the transcoder sets the mate-unmapped bit, and yet the mate fields are
  not the \<open>- 1\<close> of a missing mate: the mate reference id is what the table gives for
  the empty reference name (0 when the name is not in it, never \<open>- 1\<close> for a table built
  from a header) and the mate position is 0.
\<close>

theorem cleared_mate_fields:
  assumes mate: "next_mate_position read = Some mate"
    and cleared: "ByteSize_is_0 mate"
    and tgs: "toTags read = Inr tgs"
  shows "\<exists>seg tids'. toAlignedSegment new read tids = Inr (seg, tids') \<and>
    isFlagSet (flag seg) MATE_UNMAPPED \<and>
    next_reference_id seg = (case tids [] of None \<Rightarrow> 0 | Some i \<Rightarrow> i) \<and>
    next_reference_start seg = 0 \<and>
    (\<forall>header. tids = getTargetIds header \<longrightarrow> next_reference_id seg \<noteq> - 1)"
proof -
  from toSamFlag_flags [OF mate] obtain f where f: "toSamFlag read = Inr f"
    and mu: "isFlagSet f MATE_UNMAPPED = ByteSize_is_0 mate"
    by (elim exE conjE)
  from toAlignedSegment_fields [OF mate tgs, of new tids]
  obtain seg tids' f' where r: "toAlignedSegment new read tids = Inr (seg, tids')"
    and f': "toSamFlag read = Inr f'" "flag seg = f'"
    and nid: "next_reference_id seg = fst (dd_getitem tids (reference_name mate))"
    and npos: "next_reference_start seg = position mate"
    by (elim exE conjE)
  from f f' have flg: "flag seg = f" by simp
  from cleared have name: "reference_name mate = []" and pos: "position mate = 0"
    by (simp_all add: ByteSize_is_0_def)
  have id: "next_reference_id seg = (case tids [] of None \<Rightarrow> 0 | Some i \<Rightarrow> i)"
    by (simp add: nid name dd_getitem_fst)
  have nonneg: "next_reference_id seg \<noteq> - 1" if "tids = getTargetIds header" for header
    using getTargetIds_nonneg [of header "[]"] that
    by (cases "tids []") (auto simp add: id)
  from r flg mu cleared id npos pos nonneg show ?thesis by auto
qed

theorem cleared_mate_fields_witness:
  "\<exists>seg tids'.
     toAlignedSegment pysam_AlignedSegment
       (scenario_read [] POS_STRAND
          \<lparr>next_mate_position := Some
             \<lparr>reference_name = [], position = 0, strand = STRAND_UNSPECIFIED\<rparr>\<rparr>)
       (getTargetIds (getHeader scenario_reference)) = Inr (seg, tids') \<and>
     isFlagSet (flag seg) MATE_UNMAPPED \<and> next_reference_id seg = 0 \<and>
     next_reference_start seg = 0"
proof -
  let ?mate = "\<lparr>reference_name = [], position = 0, strand = STRAND_UNSPECIFIED\<rparr>"
  let ?read = "scenario_read [] POS_STRAND\<lparr>next_mate_position := Some ?mate\<rparr>"
  have mate: "next_mate_position ?read = Some ?mate" by simp
  have cleared: "ByteSize_is_0 ?mate" by (simp add: ByteSize_is_0_def)
  have tgs: "toTags ?read = Inr []" by (simp add: toTags_def scenario_read_def)
  have ids: "getTargetIds (getHeader scenario_reference) [] = None"
    by (simp add: getTargetIds_def getHeader_def scenario_reference_def)
  from cleared_mate_fields [OF mate cleared tgs, of pysam_AlignedSegment
      "getTargetIds (getHeader scenario_reference)"]
  show ?thesis unfolding ids by auto
qed

text \<open>
  C7, as stated, fails. With a table that knows \<^verbatim>\<open>chr2\<close> only, the scenario's read,
  aligned to \<^verbatim>\<open>chr1\<close> with its mate on \<^verbatim>\<open>chr1\<close>, is transcoded without an error, but
  both reference ids are 0, the target id of \<^verbatim>\<open>chr2\<close>, and not the unmapped sentinel
  \<open>- 1\<close>; the lookups also leave \<^verbatim>\<open>chr1\<close> in the table.
\<close>

theorem unknown_reference_counterexample:
  "getTargetIds (getHeader \<lparr>ref_name = ''chr2'', ref_length = 500\<rparr>) ''chr1'' = None \<and>
   reference_id pysam_AlignedSegment = - 1 \<and>
   toAlignedSegment pysam_AlignedSegment (scenario_read [] POS_STRAND)
       (getTargetIds (getHeader \<lparr>ref_name = ''chr2'', ref_length = 500\<rparr>))
     = Inr (\<lparr>query_name = ''r1'', query_sequence = ''ACGT'', flag = 0x43,
             reference_id = 0, reference_start = 100, seg_mapping_quality = 60,
             seg_cigar = [(Some 0, 4)], next_reference_id = 0,
             next_reference_start = 200, template_length = 150,
             query_qualities = [], tags = []\<rparr>,
            [''chr2'' \<mapsto> 0, ''chr1'' \<mapsto> 0])"
proof -
  let ?read = "scenario_read [] POS_STRAND"
  let ?tids = "getTargetIds (getHeader \<lparr>ref_name = ''chr2'', ref_length = 500\<rparr>)"
  have tids: "?tids = [''chr2'' \<mapsto> 0]"
    by (simp add: getTargetIds_def getHeader_def)
  have al: "alignment ?read = Some
      \<lparr>alignment_position = \<lparr>reference_name = ''chr1'', position = 100, strand = POS_STRAND\<rparr>,
       mapping_quality = 60,
       cigar = [\<lparr>operation = ALIGNMENT_MATCH, operation_length = 4\<rparr>]\<rparr>"
    by (simp add: scenario_read_def)
  have mate: "next_mate_position ?read =
      Some \<lparr>reference_name = ''chr1'', position = 200, strand = POS_STRAND\<rparr>"
    by (simp add: scenario_read_def)
  have tgs: "toTags ?read = Inr []"
    by (simp add: toTags_def scenario_read_def)
  have flg: "toSamFlag ?read = Inr 0x43"
    by (simp add: toSamFlag_def scenario_read_def setFlag_def ByteSize_is_0_def
        READ_PAIRED_def READ_PROPER_PAIR_def FIRST_IN_PAIR_def)
  have cig: "toCigar ?read = [(Some 0, 4)]"
    by (simp add: toCigar_def scenario_read_def ga2int_vals)
  have rest: "fragment_name ?read = ''r1''" "aligned_sequence ?read = ''ACGT''"
    "fragment_length ?read = 150" "aligned_quality ?read = []"
    by (simp_all add: scenario_read_def)
  show ?thesis
    unfolding toAlignedSegment_mapped [OF al mate flg tgs] tids cig rest
    by (simp add: pysam_AlignedSegment_def dd_getitem_def encode_def)
qed

text \<open>
  C7, amended. For a read whose alignment, or whose mate position, names a reference that
  the table of target ids does not hold, the lookup does not fail and gives 0, the
  default of the \<^verbatim>\<open>defaultdict(int)\<close>, as the reference id, or the mate reference id.
  The transcoder returns the segment whenever the flag and the tags are computed, that
  is for a mate position that is a message and tags that the tag rule accepts.
\<close>

theorem unknown_reference_gets_zero:
  assumes mate: "next_mate_position read = Some mate"
    and tgs: "toTags read = Inr tgs"
  shows "\<exists>seg tids'. toAlignedSegment new read tids = Inr (seg, tids') \<and>
    (\<forall>a. alignment read = Some a \<and> tids (reference_name (alignment_position a)) = None
       \<longrightarrow> reference_id seg = 0) \<and>
    (tids (reference_name mate) = None \<longrightarrow> next_reference_id seg = 0)"
proof -
  from toAlignedSegment_fields [OF mate tgs, of new tids]
  obtain seg tids' where r: "toAlignedSegment new read tids = Inr (seg, tids')"
    and rid: "reference_id seg =
      (case alignment read of
         None \<Rightarrow> reference_id new
       | Some a \<Rightarrow> fst (dd_getitem tids (reference_name (alignment_position a))))"
    and nid: "next_reference_id seg = fst (dd_getitem tids (reference_name mate))"
    by (elim exE conjE)
  have own: "\<forall>a. alignment read = Some a \<and>
      tids (reference_name (alignment_position a)) = None \<longrightarrow> reference_id seg = 0"
    by (auto simp add: rid dd_getitem_fst)
  have other: "tids (reference_name mate) = None \<longrightarrow> next_reference_id seg = 0"
    by (simp add: nid dd_getitem_fst)
  from r own other show ?thesis
    by (intro exI [of _ seg] exI [of _ tids'] conjI)
qed

theorem unknown_reference_gets_zero_witness:
  "getTargetIds (getHeader \<lparr>ref_name = ''chr2'', ref_length = 500\<rparr>) ''chr1'' = None \<and>
   (\<exists>seg tids'.
      toAlignedSegment pysam_AlignedSegment (scenario_read [] POS_STRAND)
        (getTargetIds (getHeader \<lparr>ref_name = ''chr2'', ref_length = 500\<rparr>))
        = Inr (seg, tids') \<and>
      reference_id seg = 0 \<and> next_reference_id seg = 0)"
proof -
  let ?read = "scenario_read [] POS_STRAND"
  let ?tids = "getTargetIds (getHeader \<lparr>ref_name = ''chr2'', ref_length = 500\<rparr>)"
  let ?mate = "\<lparr>reference_name = ''chr1'', position = 200, strand = POS_STRAND\<rparr>"
  have absent: "?tids ''chr1'' = None"
    by (simp add: getTargetIds_def getHeader_def)
  have al: "alignment ?read = Some
      \<lparr>alignment_position = \<lparr>reference_name = ''chr1'', position = 100, strand = POS_STRAND\<rparr>,
       mapping_quality = 60,
       cigar = [\<lparr>operation = ALIGNMENT_MATCH, operation_length = 4\<rparr>]\<rparr>"
    by (simp add: scenario_read_def)
  have mate: "next_mate_position ?read = Some ?mate"
    by (simp add: scenario_read_def)
  have tgs: "toTags ?read = Inr []"
    by (simp add: toTags_def scenario_read_def)
  from unknown_reference_gets_zero [OF mate tgs, of pysam_AlignedSegment ?tids]
  show ?thesis unfolding al using absent by auto
qed

subsection \<open>Reads whose alignment or mate position was not set\<close>

lemma ByteSize_is_0_unset: "ByteSize_is_0 mate = (mate = unset_Position)"
  by (cases mate) (auto simp add: ByteSize_is_0_def unset_Position_def)

lemma header_table_lookup: "fst (dd_getitem (getTargetIds (getHeader reference)) k) = 0"
  by (simp add: dd_getitem_fst getTargetIds_def getHeader_def)

text \<open>
  C9. For every read of the protocol, whose mate position is a message, the flag is
  computed and the mate-unmapped bit \<open>0x8\<close> is set exactly when the mate position is
  absent or cleared, that is when it is the message with every field at its zero or
  default value.
\<close>

theorem mate_unmapped_flag:
  assumes "next_mate_position read = Some mate"
  shows "\<exists>f. toSamFlag read = Inr f \<and>
    isFlagSet f MATE_UNMAPPED = ByteSize_is_0 mate \<and>
    isFlagSet f MATE_UNMAPPED = (mate = unset_Position)"
proof -
  from toSamFlag_flags [OF assms] obtain f where f: "toSamFlag read = Inr f"
    and mu: "isFlagSet f MATE_UNMAPPED = ByteSize_is_0 mate"
    by (elim exE conjE)
  from f mu show ?thesis
    by (intro exI [of _ f] conjI) (simp_all add: ByteSize_is_0_unset)
qed

theorem mate_unmapped_flag_witness:
  "toSamFlag (scenario_read [] POS_STRAND\<lparr>next_mate_position := Some unset_Position\<rparr>)
     = Inr 0x4B \<and>
   isFlagSet 0x4B MATE_UNMAPPED \<and>
   toSamFlag (scenario_read [] POS_STRAND) = Inr 0x43 \<and>
   \<not> isFlagSet 0x43 MATE_UNMAPPED"
proof -
  let ?mate = "\<lparr>reference_name = ''chr1'', position = 200, strand = POS_STRAND\<rparr>"
  have m1: "next_mate_position
      (scenario_read [] POS_STRAND\<lparr>next_mate_position := Some unset_Position\<rparr>)
      = Some unset_Position"
    by simp
  have m2: "next_mate_position (scenario_read [] POS_STRAND) = Some ?mate"
    by (simp add: scenario_read_def)
  have v: "toSamFlag (scenario_read [] POS_STRAND\<lparr>next_mate_position := Some unset_Position\<rparr>)
      = Inr 0x4B"
    "toSamFlag (scenario_read [] POS_STRAND) = Inr 0x43"
    by (simp_all add: toSamFlag_def scenario_read_def setFlag_def ByteSize_is_0_def
        unset_Position_def READ_PAIRED_def READ_PROPER_PAIR_def MATE_UNMAPPED_def
        FIRST_IN_PAIR_def)
  have c: "ByteSize_is_0 unset_Position" "\<not> ByteSize_is_0 ?mate"
    by (simp_all add: ByteSize_is_0_def unset_Position_def)
  show ?thesis
    using mate_unmapped_flag [OF m1, unfolded v] mate_unmapped_flag [OF m2, unfolded v]
    by (simp add: v c)
qed

text \<open>
  C2. A read of the protocol whose alignment and mate position were not set, converted
  with the table of a header: the comparisons with \<^verbatim>\<open>None\<close> do not hold of the empty
  messages, so the transcoder looks the empty reference name up and takes the
  coordinates of the messages. The reference id is 0 and not the sentinel, the mate
  reference id is 0 and the mate position is 0, not \<open>- 1\<close>; the own position is 0. The
  mate-unmapped bit is set all the same, and the read-unmapped bit is not.
\<close>

theorem unset_messages_give_zero:
  "\<exists>seg tids'.
     toAlignedSegment new
       (read\<lparr>alignment := Some unset_LinearAlignment,
             next_mate_position := Some unset_Position,
             attributes := []\<rparr>)
       (getTargetIds (getHeader reference)) = Inr (seg, tids') \<and>
     isFlagSet (flag seg) MATE_UNMAPPED \<and>
     \<not> isFlagSet (flag seg) READ_UNMAPPED \<and>
     reference_id seg = 0 \<and> reference_start seg = 0 \<and>
     next_reference_id seg = 0 \<and> next_reference_start seg = 0 \<and>
     next_reference_id seg \<noteq> - 1 \<and> next_reference_start seg \<noteq> - 1"
proof -
  let ?read = "read\<lparr>alignment := Some unset_LinearAlignment,
      next_mate_position := Some unset_Position, attributes := []\<rparr>"
  let ?tids = "getTargetIds (getHeader reference)"
  have mate: "next_mate_position ?read = Some unset_Position" by simp
  have al: "alignment ?read = Some unset_LinearAlignment" by simp
  have tgs: "toTags ?read = Inr []" by (simp add: toTags_def)
  from toSamFlag_flags [OF mate] obtain f where f: "toSamFlag ?read = Inr f"
    and ru: "isFlagSet f READ_UNMAPPED = (alignment ?read = None)"
    and mu: "isFlagSet f MATE_UNMAPPED = ByteSize_is_0 unset_Position"
    by (elim exE conjE)
  from toAlignedSegment_fields [OF mate tgs, of new ?tids]
  obtain seg tids' f' where r: "toAlignedSegment new ?read ?tids = Inr (seg, tids')"
    and f': "toSamFlag ?read = Inr f'" "flag seg = f'"
    and rid: "reference_id seg =
      (case alignment ?read of
         None \<Rightarrow> reference_id new
       | Some a \<Rightarrow> fst (dd_getitem ?tids (reference_name (alignment_position a))))"
    and rstart: "reference_start seg =
      (case alignment ?read of None \<Rightarrow> 0 | Some a \<Rightarrow> position (alignment_position a))"
    and nid: "next_reference_id seg = fst (dd_getitem ?tids (reference_name unset_Position))"
    and npos: "next_reference_start seg = position unset_Position"
    by (elim exE conjE)
  from f f' have flg: "flag seg = f" by simp
  have b1: "isFlagSet (flag seg) MATE_UNMAPPED"
    by (simp add: flg mu ByteSize_is_0_unset)
  have b2: "\<not> isFlagSet (flag seg) READ_UNMAPPED"
    by (simp add: flg ru)
  have i1: "reference_id seg = 0"
    unfolding rid al option.case by (rule header_table_lookup)
  have p1: "reference_start seg = 0"
    unfolding rstart al option.case
    by (simp add: unset_LinearAlignment_def unset_Position_def)
  have i2: "next_reference_id seg = 0"
    unfolding nid by (rule header_table_lookup)
  have p2: "next_reference_start seg = 0"
    unfolding npos by (simp add: unset_Position_def)
  from r b1 b2 i1 p1 i2 p2 show ?thesis
    by (intro exI [of _ seg] exI [of _ tids'] conjI) simp_all
qed

end
